theory Spec2Isabelle
  imports Main "HOL-Library.DAList"
begin

section \<open>The camera manager of admin.js\<close>

text \<open>
  The repository has two variants of the page controller, \<^verbatim>\<open>src/admin.js\<close> and
  \<^verbatim>\<open>src/up/admin.js\<close>. The functions modelled here (the add-camera handler,
  \<^verbatim>\<open>handleControlAction\<close>, \<^verbatim>\<open>updateButtonStates\<close>, \<^verbatim>\<open>startStatusPolling\<close>,
  \<^verbatim>\<open>updateStatusDisplay\<close>, \<^verbatim>\<open>initVideoStream\<close> with its error handler,
  \<^verbatim>\<open>destroyVideoStream\<close>, \<^verbatim>\<open>createCameraCard\<close>, \<^verbatim>\<open>renderCameraCard\<close>,
  \<^verbatim>\<open>renderCameraGrid\<close>, \<^verbatim>\<open>initialLoadCameras\<close>) are the same text in both. The
  variants differ in the tuning options given to the \<^verbatim>\<open>Hls\<close> constructor and in the
  player event that starts playback, which are not modelled, and in \<^verbatim>\<open>init\<close>: only
  \<^verbatim>\<open>src/admin.js\<close> calls \<^verbatim>\<open>loadRecordings\<close>.

  The class \<^verbatim>\<open>CameraManager\<close> mutates its field \<^verbatim>\<open>cameras\<close> and the page; the model
  passes a state record explicitly. Strings are \<^typ>\<open>string\<close>, one character for each
  code unit, read as Latin-1 (code units below 256).
\<close>

subsection \<open>The player library as the code uses it\<close>

type_synonym CameraId = string

text \<open>\<^verbatim>\<open>data.type\<close> of an error event: the two types the switch names, and any other.\<close>

datatype ErrorTypes = NETWORK_ERROR | MEDIA_ERROR | OTHER_ERROR

record ErrorData =
  fatal :: bool
  errType :: ErrorTypes

text \<open>
  An \<^verbatim>\<open>Hls\<close> instance is an object of the external library hls.js. The model keeps of it
  the calls the code has made on it, in order, and says nothing of what the library does
  on a call.
\<close>

datatype HlsCall = LoadSource string | AttachMedia | StartLoad | RecoverMediaError | Destroy

record Hls =
  calls :: "HlsCall list"

definition newHls :: Hls where
  "newHls = \<lparr>calls = []\<rparr>"

definition loadSource :: "string \<Rightarrow> Hls \<Rightarrow> Hls" where
  "loadSource u h = h\<lparr>calls := calls h @ [LoadSource u]\<rparr>"

definition attachMedia :: "Hls \<Rightarrow> Hls" where
  "attachMedia h = h\<lparr>calls := calls h @ [AttachMedia]\<rparr>"

definition startLoad :: "Hls \<Rightarrow> Hls" where
  "startLoad h = h\<lparr>calls := calls h @ [StartLoad]\<rparr>"

definition recoverMediaError :: "Hls \<Rightarrow> Hls" where
  "recoverMediaError h = h\<lparr>calls := calls h @ [RecoverMediaError]\<rparr>"

definition destroy :: "Hls \<Rightarrow> Hls" where
  "destroy h = h\<lparr>calls := calls h @ [Destroy]\<rparr>"

definition destroyed :: "Hls \<Rightarrow> bool" where
  "destroyed h = (Destroy \<in> set (calls h))"


text \<open>
  The template literal \<^verbatim>\<open>`/static/hls/camera_${cameraId}/playlist.m3u8`\<close>, which
  \<^verbatim>\<open>initVideoStream\<close> writes twice (for hls.js and for the native fallback).
\<close>

definition hlsUrl :: "CameraId \<Rightarrow> string" where
  "hlsUrl cameraId = ''/static/hls/camera_'' @ cameraId @ ''/playlist.m3u8''"

text \<open>
  The listener \<^verbatim>\<open>hls.on(Hls.Events.ERROR, (event, data) => ...)\<close> of
  \<^verbatim>\<open>initVideoStream\<close>: nothing unless \<^verbatim>\<open>data.fatal\<close>, then the switch on
  \<^verbatim>\<open>data.type\<close>. It keeps no counter and reads no state.
\<close>

definition errorHandler :: "ErrorData \<Rightarrow> Hls \<Rightarrow> Hls" where
  "errorHandler data hls =
     (if fatal data then
        (case errType data of
           NETWORK_ERROR \<Rightarrow> startLoad hls
         | MEDIA_ERROR \<Rightarrow> recoverMediaError hls
         | OTHER_ERROR \<Rightarrow> destroy hls)
      else hls)"

text \<open>\<^verbatim>\<open>new Hls(...)\<close>, \<^verbatim>\<open>hls.loadSource(hlsUrl)\<close>, \<^verbatim>\<open>hls.attachMedia(video)\<close>.\<close>

definition createPlayer :: "CameraId \<Rightarrow> Hls" where
  "createPlayer cameraId = attachMedia (loadSource (hlsUrl cameraId) newHls)"

subsection \<open>The page\<close>

text \<open>
  A \<^verbatim>\<open>video\<close> element made by \<^verbatim>\<open>initVideoStream\<close>: its \<^verbatim>\<open>src\<close> (set on the native
  path only) and its property \<^verbatim>\<open>hls\<close>, which \<^verbatim>\<open>destroyVideoStream\<close> reads and no
  code assigns. A player is referred to by its index in the list of all instances made.
\<close>

record Video =
  videoSrc :: "string option"
  videoHls :: "nat option"

text \<open>
  A camera card as \<^verbatim>\<open>renderCameraCard\<close> builds it: the element id is
  \<^verbatim>\<open>camera-<cardId>\<close>; the two buttons with their \<^verbatim>\<open>disabled\<close> flag; the class tokens
  of the \<^verbatim>\<open>div\<close> that starts as \<^verbatim>\<open>status-indicator\<close>; the children of the
  \<^verbatim>\<open>video-container\<close>.
\<close>

record Card =
  cardId :: CameraId
  startDisabled :: bool
  stopDisabled :: bool
  indicatorClasses :: "string list"
  videoContainer :: "Video list"

text \<open>A \<^verbatim>\<open>fetch\<close> the code has issued; the body is the value given to \<^verbatim>\<open>JSON.stringify\<close>.\<close>

datatype Json = JString string | JArray "Json list" | JObject "(string \<times> Json) list"

record Request =
  httpMethod :: string
  url :: string
  headers :: "(string \<times> string) list"
  body :: "Json option"

definition statusRequest :: Request where
  "statusRequest = \<lparr>httpMethod = ''GET'', url = ''/api/status'', headers = [], body = None\<rparr>"

definition recordingsRequest :: Request where
  "recordingsRequest =
     \<lparr>httpMethod = ''GET'', url = ''/api/recordings'', headers = [], body = None\<rparr>"

text \<open>
  What the code can observe and change: the field \<^verbatim>\<open>this.cameras\<close>; the children of
  \<^verbatim>\<open>#camera-grid\<close>; every \<^verbatim>\<open>Hls\<close> instance created so far; the requests sent; the
  control requests sent and not yet answered, as (camera, action); the \<^verbatim>\<open>alert\<close> texts
  shown; the notifications appended to \<^verbatim>\<open>#notifications\<close> as (message, type); the text
  of \<^verbatim>\<open>#active-cam-count\<close>; the value of the input \<^verbatim>\<open>#new-camera-id\<close>.
\<close>

record State =
  cameras :: "CameraId list"
  grid :: "Card list"
  players :: "Hls list"
  requests :: "Request list"
  pending :: "(CameraId \<times> string) list"
  alerts :: "string list"
  notifications :: "(string \<times> string) list"
  activeCamCount :: nat
  newCameraId :: string

subsection \<open>Selectors\<close>

text \<open>
  The code finds the elements of a card with \<^verbatim>\<open>document.querySelector\<close> on the texts
  \<^verbatim>\<open>#camera-<id>\<close>, \<^verbatim>\<open>#camera-<id> .video-container\<close> and
  \<^verbatim>\<open>#camera-<id> .status-indicator\<close>. When every character of the id is a letter, a
  digit, a hyphen or an underscore, \<^verbatim>\<open>#camera-<id>\<close> is an id selector: it selects the
  first card of the grid with that id, and nothing when there is none.
\<close>

definition isNameChar :: "char \<Rightarrow> bool" where
  "isNameChar c =
     (c \<in> set ''abcdefghijklmnopqrstuvwxyzABCDEFGHIJKLMNOPQRSTUVWXYZ0123456789-_'')"

definition cssIdent :: "CameraId \<Rightarrow> bool" where
  "cssIdent cameraId = list_all isNameChar cameraId"

definition querySelectorCard :: "CameraId \<Rightarrow> Card list \<Rightarrow> Card option" where
  "querySelectorCard cameraId g = find (\<lambda>c. cardId c = cameraId) g"

text \<open>
  For any other id (one with a dot, a slash, a comma, a space and the like) the text is
  another selector or none. \<^verbatim>\<open>querySelector\<close> then throws a \<^verbatim>\<open>SyntaxError\<close> with some
  message, or finds nothing, or finds some element of the page, through which the code
  goes on to write. Which of the three happens, and what those writes make of the grid,
  is decided by the browser's selector engine and the page; the model takes it as a
  parameter, a function of the selector text.
\<close>

datatype Foreign =
    SelectorThrows string
  | SelectorNull
  | SelectorOther "Card list \<Rightarrow> Card list"

text \<open>
  What the page runs in: \<^verbatim>\<open>Hls.isSupported()\<close>; whether
  \<^verbatim>\<open>video.canPlayType('application/vnd.apple.mpegurl')\<close> is a non-empty string; whether
  the file is \<^verbatim>\<open>src/admin.js\<close>, whose \<^verbatim>\<open>init\<close> calls \<^verbatim>\<open>loadRecordings\<close>; and the
  selector engine on the texts that are not id selectors.
\<close>

record Environment =
  hlsSupported :: bool
  nativeHls :: bool
  loadsRecordings :: bool
  querySelectorOther :: "string \<Rightarrow> Foreign"

text \<open>
  The state after the constructor: \<^verbatim>\<open>this.cameras = []\<close>, the page of admin.html, and
  the requests \<^verbatim>\<open>init\<close> has sent: \<^verbatim>\<open>loadRecordings\<close> fetches \<^verbatim>\<open>/api/recordings\<close> (in
  \<^verbatim>\<open>src/admin.js\<close>) and \<^verbatim>\<open>initialLoadCameras\<close> fetches \<^verbatim>\<open>/api/status\<close>.
\<close>

definition initState :: "Environment \<Rightarrow> State" where
  "initState env =
     \<lparr>cameras = [], grid = [], players = [],
      requests = (if loadsRecordings env then [recordingsRequest] else []) @ [statusRequest],
      pending = [], alerts = [], notifications = [], activeCamCount = 0, newCameraId = []\<rparr>"

text \<open>
  A function of the code either returns or throws; what it has written before it throws
  stays written.
\<close>

datatype Outcome = Returned State | Thrown string State

fun stateOf :: "Outcome \<Rightarrow> State" where
  "stateOf (Returned s) = s"
| "stateOf (Thrown message s) = s"


text \<open>
  A function that begins with \<^verbatim>\<open>querySelector\<close> on the selector of a camera, returns at
  once on \<^verbatim>\<open>null\<close> and writes otherwise: \<open>found\<close> is what it does for an id selector
  (the case of no such card included), \<open>also\<close> what it does besides writing through the
  element when the text selects some other element.
\<close>

definition withSelector ::
  "Environment \<Rightarrow> CameraId \<Rightarrow> string \<Rightarrow> (State \<Rightarrow> State) \<Rightarrow> (State \<Rightarrow> State) \<Rightarrow> State
     \<Rightarrow> Outcome" where
  "withSelector env cameraId suffix found also s =
     (if cssIdent cameraId then Returned (found s)
      else
        (case querySelectorOther env (''#camera-'' @ cameraId @ suffix) of
           SelectorThrows message \<Rightarrow> Thrown message s
         | SelectorNull \<Rightarrow> Returned s
         | SelectorOther g \<Rightarrow> Returned (also (s\<lparr>grid := g (grid s)\<rparr>))))"

fun modifyFirst :: "('a \<Rightarrow> bool) \<Rightarrow> ('a \<Rightarrow> 'a) \<Rightarrow> 'a list \<Rightarrow> 'a list" where
  "modifyFirst P f [] = []"
| "modifyFirst P f (x # xs) = (if P x then f x # xs else x # modifyFirst P f xs)"

text \<open>\<^verbatim>\<open>element.classList.toggle(token, force)\<close>.\<close>

definition classListToggle :: "string \<Rightarrow> bool \<Rightarrow> string list \<Rightarrow> string list" where
  "classListToggle token force cls =
     (if force then (if token \<in> set cls then cls else cls @ [token])
      else filter (\<lambda>t. t \<noteq> token) cls)"

definition hasIndicator :: "Card \<Rightarrow> bool" where
  "hasIndicator c = (''status-indicator'' \<in> set (indicatorClasses c))"

subsection \<open>Buttons\<close>

text \<open>
  \<^verbatim>\<open>updateButtonStates(cameraId, isStarted)\<close>: returns at once without a card; the
  buttons are always found in a card; the indicator is found by its class
  \<^verbatim>\<open>status-indicator\<close>. \<open>updateButtonStatesIdent\<close> is the function for an id
  selector.
\<close>

definition updateButtonStatesCard :: "bool \<Rightarrow> Card \<Rightarrow> Card" where
  "updateButtonStatesCard isStarted c =
     (let c1 = c\<lparr>startDisabled := isStarted, stopDisabled := \<not> isStarted\<rparr>
      in if hasIndicator c1
         then c1\<lparr>indicatorClasses := classListToggle ''active'' isStarted (indicatorClasses c1)\<rparr>
         else c1)"

definition updateButtonStatesIdent :: "CameraId \<Rightarrow> bool \<Rightarrow> State \<Rightarrow> State" where
  "updateButtonStatesIdent cameraId isStarted s =
     s\<lparr>grid := modifyFirst (\<lambda>c. cardId c = cameraId) (updateButtonStatesCard isStarted) (grid s)\<rparr>"

definition updateButtonStates :: "Environment \<Rightarrow> CameraId \<Rightarrow> bool \<Rightarrow> State \<Rightarrow> Outcome" where
  "updateButtonStates env cameraId isStarted s =
     withSelector env cameraId [] (updateButtonStatesIdent cameraId isStarted) (\<lambda>t. t) s"

subsection \<open>Video streams\<close>

text \<open>
  \<^verbatim>\<open>initVideoStream(cameraId)\<close>: returns at once when the video container is not found.
  Otherwise the container is emptied and gets a new \<^verbatim>\<open>video\<close> element; with hls.js a new
  instance is made, its error listener installed, the source loaded and the element
  attached; on the native path the element's \<^verbatim>\<open>src\<close> is set. The function checks for
  no earlier player. \<open>initVideoStreamIdent\<close> is the function for an id selector.
\<close>

definition initVideoStreamIdent :: "Environment \<Rightarrow> CameraId \<Rightarrow> State \<Rightarrow> State" where
  "initVideoStreamIdent env cameraId s =
     (case querySelectorCard cameraId (grid s) of
        None \<Rightarrow> s
      | Some theCard \<Rightarrow>
          (let video = \<lparr>videoSrc = None, videoHls = None\<rparr>;
               put = (\<lambda>v. modifyFirst (\<lambda>c. cardId c = cameraId)
                              (\<lambda>c. c\<lparr>videoContainer := [] @ [v]\<rparr>) (grid s))
           in if hlsSupported env then
                s\<lparr>grid := put video, players := players s @ [createPlayer cameraId]\<rparr>
              else if nativeHls env then
                s\<lparr>grid := put (video\<lparr>videoSrc := Some (hlsUrl cameraId)\<rparr>)\<rparr>
              else s\<lparr>grid := put video\<rparr>))"

definition initVideoStream :: "Environment \<Rightarrow> CameraId \<Rightarrow> State \<Rightarrow> Outcome" where
  "initVideoStream env cameraId s =
     withSelector env cameraId '' .video-container'' (initVideoStreamIdent env cameraId)
       (\<lambda>t. if hlsSupported env then t\<lparr>players := players t @ [createPlayer cameraId]\<rparr> else t)
       s"

text \<open>An error event of the player with index \<open>i\<close> runs the listener on that instance.\<close>

definition hlsError :: "nat \<Rightarrow> ErrorData \<Rightarrow> State \<Rightarrow> State" where
  "hlsError i data s =
     (if i < length (players s)
      then s\<lparr>players := (players s)[i := errorHandler data (players s ! i)]\<rparr>
      else s)"

text \<open>
  \<^verbatim>\<open>destroyVideoStream(cameraId)\<close>: the first \<^verbatim>\<open>video\<close> of the container, if any, is
  removed, after \<^verbatim>\<open>video.hls.destroy()\<close> when the property \<^verbatim>\<open>hls\<close> is set. No video
  element of the page has that property, so through another element no player is
  reached either.
\<close>

definition destroyVideoStreamIdent :: "CameraId \<Rightarrow> State \<Rightarrow> State" where
  "destroyVideoStreamIdent cameraId s =
     (case querySelectorCard cameraId (grid s) of
        None \<Rightarrow> s
      | Some theCard \<Rightarrow>
          (case videoContainer theCard of
             [] \<Rightarrow> s
           | video # rest \<Rightarrow>
               (let s1 = (case videoHls video of
                            None \<Rightarrow> s
                          | Some i \<Rightarrow>
                              (if i < length (players s)
                               then s\<lparr>players := (players s)[i := destroy (players s ! i)]\<rparr>
                               else s))
                in s1\<lparr>grid := modifyFirst (\<lambda>c. cardId c = cameraId)
                                 (\<lambda>c. c\<lparr>videoContainer := rest\<rparr>) (grid s1)\<rparr>)))"

definition destroyVideoStream :: "Environment \<Rightarrow> CameraId \<Rightarrow> State \<Rightarrow> Outcome" where
  "destroyVideoStream env cameraId s =
     withSelector env cameraId '' .video-container'' (destroyVideoStreamIdent cameraId)
       (\<lambda>t. t) s"

subsection \<open>The camera list and the grid\<close>

text \<open>
  \<^verbatim>\<open>renderCameraCard(cameraId)\<close> appends a card: Start enabled, Stop disabled, no video.
  The id goes into the card's \<^verbatim>\<open>innerHTML\<close> template; the model reads it as text there.
\<close>

definition newCard :: "CameraId \<Rightarrow> Card" where
  "newCard cameraId =
     \<lparr>cardId = cameraId, startDisabled = False, stopDisabled = True,
      indicatorClasses = [''status-indicator''], videoContainer = []\<rparr>"

definition renderCameraCard :: "CameraId \<Rightarrow> State \<Rightarrow> State" where
  "renderCameraCard cameraId s = s\<lparr>grid := grid s @ [newCard cameraId]\<rparr>"

text \<open>\<^verbatim>\<open>createCameraCard(cameraId)\<close>: push and render unless \<^verbatim>\<open>cameras.includes(cameraId)\<close>.\<close>

definition createCameraCard :: "CameraId \<Rightarrow> State \<Rightarrow> State" where
  "createCameraCard cameraId s =
     (if cameraId \<notin> set (cameras s)
      then renderCameraCard cameraId (s\<lparr>cameras := cameras s @ [cameraId]\<rparr>)
      else s)"

text \<open>
  \<^verbatim>\<open>renderCameraGrid()\<close> empties the grid and calls \<^verbatim>\<open>createCameraCard\<close> for the
  elements the list has when \<^verbatim>\<open>forEach\<close> starts.
\<close>

definition renderCameraGrid :: "State \<Rightarrow> State" where
  "renderCameraGrid s =
     foldl (\<lambda>st camId. createCameraCard camId st) (s\<lparr>grid := []\<rparr>) (cameras s)"

text \<open>
  \<^verbatim>\<open>String.prototype.trim\<close> on code units below 256: tab, line feed, vertical tab, form
  feed, carriage return, space and the no-break space are removed at both ends.
\<close>

definition isWhiteSpace :: "char \<Rightarrow> bool" where
  "isWhiteSpace c =
     (c \<in> set [CHR 0x09, CHR 0x0A, CHR 0x0B, CHR 0x0C, CHR 0x0D, CHR 0x20, CHR 0xA0])"

definition trim :: "string \<Rightarrow> string" where
  "trim str = rev (dropWhile isWhiteSpace (rev (dropWhile isWhiteSpace str)))"

text \<open>
  The click listener of \<^verbatim>\<open>#add-camera-btn\<close>: the trimmed value of the input must be
  non-empty (truthy) and not yet in the list; then the card is created and the input
  cleared.
\<close>

definition addCameraClick :: "State \<Rightarrow> State" where
  "addCameraClick s =
     (let cameraId = trim (newCameraId s)
      in if cameraId \<noteq> [] \<and> cameraId \<notin> set (cameras s)
         then (createCameraCard cameraId s)\<lparr>newCameraId := []\<rparr>
         else s)"

subsection \<open>Server status\<close>

text \<open>
  The value of \<^verbatim>\<open>active_streams\<close> in the answer of \<^verbatim>\<open>/api/status\<close> is an object keyed
  by camera id, so its keys are distinct: an association list with distinct keys, in the
  order \<^verbatim>\<open>Object.keys\<close> lists them. Of one entry the code reads \<^verbatim>\<open>camStatus?.main\<close> as
  a condition.
\<close>

record StreamStatus =
  main :: bool

type_synonym Status = "(CameraId, StreamStatus) alist"

definition objectKeys :: "Status \<Rightarrow> CameraId list" where
  "objectKeys status = map fst (DAList.impl_of status)"

text \<open>
  How the two awaits of a status fetch can end: \<^verbatim>\<open>fetch\<close> or \<^verbatim>\<open>response.json()\<close>
  rejects; the JSON has no \<^verbatim>\<open>active_streams\<close>, so that \<^verbatim>\<open>Object.keys(undefined)\<close>
  throws before anything is written; or there is a status object.
\<close>

datatype StatusResult = FetchFailed | NoActiveStreams | ActiveStreams Status

text \<open>\<^verbatim>\<open>showNotification(message, type)\<close> appends to \<^verbatim>\<open>#notifications\<close>; the removal after
  five seconds is not modelled.\<close>

definition showNotification :: "string \<Rightarrow> string \<Rightarrow> State \<Rightarrow> State" where
  "showNotification message type s = s\<lparr>notifications := notifications s @ [(message, type)]\<rparr>"

text \<open>
  \<^verbatim>\<open>updateStatusDisplay(status)\<close>: the count, then for each camera of the list the element
  \<^verbatim>\<open>#camera-<id> .status-indicator\<close>, when found, gets the class name
  \<^verbatim>\<open>status-dot healthy\<close> or \<^verbatim>\<open>status-dot error\<close>. When \<^verbatim>\<open>querySelector\<close> throws for a
  camera, the \<^verbatim>\<open>forEach\<close> ends there: the cameras before it have been written, the ones
  after it are not visited.
\<close>

definition statusClassName :: "Status \<Rightarrow> CameraId \<Rightarrow> string list" where
  "statusClassName status camId =
     [''status-dot'',
      (if (case DAList.lookup status camId of None \<Rightarrow> False | Some camStatus \<Rightarrow> main camStatus)
       then ''healthy'' else ''error'')]"

definition updateIndicatorIdent :: "Status \<Rightarrow> State \<Rightarrow> CameraId \<Rightarrow> State" where
  "updateIndicatorIdent status s camId =
     s\<lparr>grid := modifyFirst (\<lambda>c. cardId c = camId \<and> hasIndicator c)
                  (\<lambda>c. c\<lparr>indicatorClasses := statusClassName status camId\<rparr>) (grid s)\<rparr>"

definition updateIndicator :: "Environment \<Rightarrow> Status \<Rightarrow> CameraId \<Rightarrow> State \<Rightarrow> Outcome" where
  "updateIndicator env status camId s =
     withSelector env camId '' .status-indicator'' (\<lambda>t. updateIndicatorIdent status t camId)
       (\<lambda>t. t) s"

fun updateIndicators :: "Environment \<Rightarrow> Status \<Rightarrow> CameraId list \<Rightarrow> State \<Rightarrow> Outcome" where
  "updateIndicators env status [] s = Returned s"
| "updateIndicators env status (camId # rest) s =
     (case updateIndicator env status camId s of
        Thrown message t \<Rightarrow> Thrown message t
      | Returned t \<Rightarrow> updateIndicators env status rest t)"

definition updateStatusDisplay :: "Environment \<Rightarrow> Status \<Rightarrow> State \<Rightarrow> Outcome" where
  "updateStatusDisplay env status s =
     updateIndicators env status (cameras s)
       (s\<lparr>activeCamCount := length (objectKeys status)\<rparr>)"

text \<open>The delay given to \<^verbatim>\<open>setInterval\<close> in \<^verbatim>\<open>startStatusPolling\<close>, in milliseconds.\<close>

definition pollIntervalMs :: nat where
  "pollIntervalMs = 3000"

text \<open>
  One run of the interval callback of \<^verbatim>\<open>startStatusPolling\<close>: one \<^verbatim>\<open>fetch\<close>, then
  \<^verbatim>\<open>updateStatusDisplay\<close>; the \<^verbatim>\<open>catch\<close> shows the notification, when the fetch or the
  reading of the answer fails and also when \<^verbatim>\<open>updateStatusDisplay\<close> throws.
\<close>

definition pollTick :: "Environment \<Rightarrow> StatusResult \<Rightarrow> State \<Rightarrow> State" where
  "pollTick env r s =
     (let s1 = s\<lparr>requests := requests s @ [statusRequest]\<rparr>
      in case r of
           ActiveStreams status \<Rightarrow>
             (case updateStatusDisplay env status s1 of
                Returned t \<Rightarrow> t
              | Thrown message t \<Rightarrow> showNotification ''Status update failed'' ''error'' t)
         | _ \<Rightarrow> showNotification ''Status update failed'' ''error'' s1)"

text \<open>
  The answer to the fetch of \<^verbatim>\<open>initialLoadCameras()\<close>, which the constructor has sent:
  the list is replaced by the keys of the status object and the grid rendered anew; a
  rejected promise has no handler and changes nothing.
\<close>

definition initialLoadCameras :: "StatusResult \<Rightarrow> State \<Rightarrow> State" where
  "initialLoadCameras r s =
     (case r of
        ActiveStreams active_streams \<Rightarrow>
          renderCameraGrid (s\<lparr>cameras := objectKeys active_streams\<rparr>)
      | _ \<Rightarrow> s)"

text \<open>
  The answer to the fetch of \<^verbatim>\<open>loadRecordings()\<close>: the list of recordings is rendered
  outside the state modelled here; a failure shows a notification.
\<close>

definition loadRecordings :: "bool \<Rightarrow> State \<Rightarrow> State" where
  "loadRecordings ok s =
     (if ok then s else showNotification ''Failed to load recordings'' ''error'' s)"

subsection \<open>Start and stop\<close>

text \<open>
  The body of an answer as the code meets it: not JSON, so that \<^verbatim>\<open>response.json()\<close>
  rejects with the parser's message; the value \<^verbatim>\<open>null\<close>, on which reading
  \<^verbatim>\<open>data.message\<close> throws a \<^verbatim>\<open>TypeError\<close> of some message; or another JSON value, of
  which the code reads the field \<^verbatim>\<open>message\<close> (absent: \<open>None\<close>).
\<close>

datatype Body = NotJson string | JsonNull string | JsonValue "string option"

text \<open>
  How the fetch of \<^verbatim>\<open>handleControlAction\<close> can end: it rejects with an error of some
  message, or there is a response with its \<^verbatim>\<open>ok\<close> flag (status 200 to 299) and body.
\<close>

datatype FetchResult = Rejected string | Responded bool Body

definition controlEndpoint :: "string \<Rightarrow> string" where
  "controlEndpoint action =
     (if action = ''start'' then ''/api/start-streams'' else ''/api/stop-streams'')"

definition controlRequest :: "CameraId \<Rightarrow> string \<Rightarrow> Request" where
  "controlRequest cameraId action =
     \<lparr>httpMethod = ''POST'', url = controlEndpoint action,
      headers = [(''Content-Type'', ''application/json'')],
      body = Some (JObject [(''cameras'', JArray [JString cameraId])])\<rparr>"

text \<open>\<^verbatim>\<open>data.message || 'Failed to control camera'\<close>: an absent or empty message is falsy.\<close>

definition failureMessage :: "string option \<Rightarrow> string" where
  "failureMessage message =
     (case message of
        None \<Rightarrow> ''Failed to control camera''
      | Some m \<Rightarrow> (if m \<noteq> [] then m else ''Failed to control camera''))"

text \<open>
  The message of the error that reaches the \<^verbatim>\<open>catch\<close> before the page is updated, if
  any. The body is parsed first, whatever the status; only then \<^verbatim>\<open>response.ok\<close> is
  tested, and \<^verbatim>\<open>data.message\<close> is read only when it is false.
\<close>

definition thrownMessage :: "FetchResult \<Rightarrow> string option" where
  "thrownMessage r =
     (case r of
        Rejected message \<Rightarrow> Some message
      | Responded ok data \<Rightarrow>
          (case data of
             NotJson message \<Rightarrow> Some message
           | JsonNull message \<Rightarrow> (if ok then None else Some message)
           | JsonValue message \<Rightarrow> (if ok then None else Some (failureMessage message))))"

definition requestFailed :: "FetchResult \<Rightarrow> bool" where
  "requestFailed r = (thrownMessage r \<noteq> None)"

definition failureText :: "FetchResult \<Rightarrow> string" where
  "failureText r = (case thrownMessage r of None \<Rightarrow> [] | Some message \<Rightarrow> message)"

text \<open>
  The \<^verbatim>\<open>catch\<close> block: the alert, then the buttons are set from the action. When
  \<^verbatim>\<open>updateButtonStates\<close> throws here the error leaves the handler, the alert shown.
\<close>

definition alertText :: "CameraId \<Rightarrow> string \<Rightarrow> string \<Rightarrow> string" where
  "alertText cameraId action message =
     ''Failed to '' @ action @ '' camera '' @ cameraId @ '': '' @ message"

definition controlFailed ::
  "Environment \<Rightarrow> CameraId \<Rightarrow> string \<Rightarrow> string \<Rightarrow> State \<Rightarrow> State" where
  "controlFailed env cameraId action message s =
     stateOf (updateButtonStates env cameraId (action \<noteq> ''start'')
       (s\<lparr>alerts := alerts s @ [alertText cameraId action message]\<rparr>))"

text \<open>
  \<^verbatim>\<open>handleControlAction(cameraId, action)\<close> in two parts. Up to the first \<^verbatim>\<open>await\<close> it
  only sends the request. What follows the awaits runs when the answer is there: an
  error thrown so far goes to the \<^verbatim>\<open>catch\<close>; otherwise the page is updated for the
  action, and an error thrown by that goes to the \<^verbatim>\<open>catch\<close> as well. Nothing is
  written to the page before the answer, and other events can come in between.
\<close>

definition sendControl :: "CameraId \<Rightarrow> string \<Rightarrow> State \<Rightarrow> State" where
  "sendControl cameraId action s = s\<lparr>requests := requests s @ [controlRequest cameraId action]\<rparr>"

definition settleControl ::
  "Environment \<Rightarrow> CameraId \<Rightarrow> string \<Rightarrow> FetchResult \<Rightarrow> State \<Rightarrow> State" where
  "settleControl env cameraId action r s =
     (case thrownMessage r of
        Some message \<Rightarrow> controlFailed env cameraId action message s
      | None \<Rightarrow>
          (case updateButtonStates env cameraId (action = ''start'') s of
             Thrown message t \<Rightarrow> controlFailed env cameraId action message t
           | Returned t \<Rightarrow>
               (case (if action = ''start'' then initVideoStream env cameraId t
                      else destroyVideoStream env cameraId t) of
                  Thrown message u \<Rightarrow> controlFailed env cameraId action message u
                | Returned u \<Rightarrow> u)))"

text \<open>The whole function, when nothing else happens during its awaits.\<close>

definition handleControlAction ::
  "Environment \<Rightarrow> CameraId \<Rightarrow> string \<Rightarrow> FetchResult \<Rightarrow> State \<Rightarrow> State" where
  "handleControlAction env cameraId action r s =
     settleControl env cameraId action r (sendControl cameraId action s)"

text \<open>
  The document's click listener calls \<^verbatim>\<open>handleControlAction\<close> with the
  \<^verbatim>\<open>data-camera\<close> and \<^verbatim>\<open>data-action\<close> of a clicked \<^verbatim>\<open>control-btn\<close>; the cards have a
  button for \<^verbatim>\<open>start\<close> and one for \<^verbatim>\<open>stop\<close>. The browser sends no click for a disabled
  button, so a card's button can be clicked when this holds.
\<close>

definition clickable :: "string \<Rightarrow> Card \<Rightarrow> bool" where
  "clickable action c =
     (if action = ''start'' then \<not> startDisabled c
      else if action = ''stop'' then \<not> stopDisabled c
      else False)"

definition canClick :: "CameraId \<Rightarrow> string \<Rightarrow> State \<Rightarrow> bool" where
  "canClick cameraId action s =
     list_ex (\<lambda>c. cardId c = cameraId \<and> clickable action c) (grid s)"

subsection \<open>Runs of the page\<close>

text \<open>
  What can happen to the page: the operator types a camera id or clicks Add; the fetch
  of the first status load, and the one of the recordings, is answered; the operator
  clicks a control button, which sends the request when the button is there and enabled;
  a control request that is pending is answered; the poll timer fires; a player reports
  an error. A run is any sequence of these, from the state after the constructor.
\<close>

datatype Event =
    TypeCameraId string
  | ClickAddCamera
  | InitialLoad StatusResult
  | RecordingsAnswered bool
  | ClickControl CameraId string
  | ControlAnswered CameraId string FetchResult
  | PollTick StatusResult
  | HlsErrorEvent nat ErrorData

fun step :: "Environment \<Rightarrow> State \<Rightarrow> Event \<Rightarrow> State" where
  "step env s (TypeCameraId v) = s\<lparr>newCameraId := v\<rparr>"
| "step env s ClickAddCamera = addCameraClick s"
| "step env s (InitialLoad r) = initialLoadCameras r s"
| "step env s (RecordingsAnswered ok) = (if loadsRecordings env then loadRecordings ok s else s)"
| "step env s (ClickControl cameraId action) =
     (if canClick cameraId action s
      then (sendControl cameraId action s)\<lparr>pending := pending s @ [(cameraId, action)]\<rparr>
      else s)"
| "step env s (ControlAnswered cameraId action r) =
     (if (cameraId, action) \<in> set (pending s)
      then settleControl env cameraId action r
             (s\<lparr>pending := remove1 (cameraId, action) (pending s)\<rparr>)
      else s)"
| "step env s (PollTick r) = pollTick env r s"
| "step env s (HlsErrorEvent i data) = hlsError i data s"

definition run :: "Environment \<Rightarrow> Event list \<Rightarrow> State" where
  "run env es = foldl (step env) (initState env) es"

subsection \<open>The session states and events of the specification\<close>

text \<open>
  The code keeps no session state and has no transition function. For comparison with
  what the code does, \<open>specValidEvent\<close> is written from the transition table of the
  specification (section 4.1), not from the code: the events the table allows in each
  state, with a fresh \<open>RequestStart\<close> allowed in \<open>Failed\<close>.
\<close>

datatype SessionState = Idle | Starting | Live | Recovering | Stopping | Stopped | Failed

datatype ErrorKind = Network | Media | Fatal

datatype SessionEvent =
    RequestStart
  | RequestStop
  | PlayerAttached
  | PlayerError ErrorKind
  | RecoveryExhausted
  | ServerReportsDown
  | ServerReportsUp


subsection \<open>Notions used in the properties\<close>


text \<open>The calls the error listener makes for one event.\<close>

definition reaction :: "ErrorData \<Rightarrow> HlsCall list" where
  "reaction data =
     (if fatal data then
        (case errType data of
           NETWORK_ERROR \<Rightarrow> [StartLoad]
         | MEDIA_ERROR \<Rightarrow> [RecoverMediaError]
         | OTHER_ERROR \<Rightarrow> [Destroy])
      else [])"

text \<open>
  What \<^verbatim>\<open>updateStatusDisplay\<close>, the \<^verbatim>\<open>catch\<close> block and the part of
  \<^verbatim>\<open>handleControlAction\<close> after the awaits come to when every selector they use is an id
  selector.
\<close>

definition updateStatusDisplayIdent :: "Status \<Rightarrow> State \<Rightarrow> State" where
  "updateStatusDisplayIdent status s =
     foldl (updateIndicatorIdent status)
       (s\<lparr>activeCamCount := length (objectKeys status)\<rparr>) (cameras s)"

definition controlFailedIdent :: "CameraId \<Rightarrow> string \<Rightarrow> string \<Rightarrow> State \<Rightarrow> State" where
  "controlFailedIdent cameraId action message s =
     updateButtonStatesIdent cameraId (action \<noteq> ''start'')
       (s\<lparr>alerts := alerts s @ [alertText cameraId action message]\<rparr>)"

definition settleControlIdent ::
  "Environment \<Rightarrow> CameraId \<Rightarrow> string \<Rightarrow> FetchResult \<Rightarrow> State \<Rightarrow> State" where
  "settleControlIdent env cameraId action r s =
     (case thrownMessage r of
        Some message \<Rightarrow> controlFailedIdent cameraId action message s
      | None \<Rightarrow>
          (if action = ''start''
           then initVideoStreamIdent env cameraId (updateButtonStatesIdent cameraId True s)
           else destroyVideoStreamIdent cameraId (updateButtonStatesIdent cameraId False s)))"




subsection \<open>Example runs\<close>

text \<open>
  The page of \<^verbatim>\<open>src/admin.js\<close> in a browser with hls.js support, and in one that plays
  HLS natively; in both the selector engine finds nothing for a text that is not an id
  selector. A browser whose selector engine throws for such a text.
\<close>

definition envHls :: Environment where
  "envHls = \<lparr>hlsSupported = True, nativeHls = False, loadsRecordings = True,
             querySelectorOther = (\<lambda>t. SelectorNull)\<rparr>"

definition envNative :: Environment where
  "envNative = \<lparr>hlsSupported = False, nativeHls = True, loadsRecordings = True,
                querySelectorOther = (\<lambda>t. SelectorNull)\<rparr>"

definition envThrows :: Environment where
  "envThrows = \<lparr>hlsSupported = True, nativeHls = False, loadsRecordings = True,
                querySelectorOther = (\<lambda>t. SelectorThrows ''not a valid selector'')\<rparr>"

definition fatalMediaError :: ErrorData where
  "fatalMediaError = \<lparr>fatal = True, errType = MEDIA_ERROR\<rparr>"



text \<open>An answer with status 200 and a JSON object; one with status 500 and a message.\<close>

definition ok200 :: FetchResult where
  "ok200 = Responded True (JsonValue None)"

definition busy500 :: FetchResult where
  "busy500 = Responded False (JsonValue (Some ''busy''))"

text \<open>The operator adds the camera; and starts it, the server answering 200.\<close>

definition addCamera :: "CameraId \<Rightarrow> Event list" where
  "addCamera cameraId = [TypeCameraId cameraId, ClickAddCamera]"

definition addAndStart :: "CameraId \<Rightarrow> Event list" where
  "addAndStart cameraId =
     addCamera cameraId @
       [ClickControl cameraId ''start'', ControlAnswered cameraId ''start'' ok200]"




text \<open>The operator adds camera 1 and types its id again, with spaces around it.\<close>

definition typedAgain :: "Event list" where
  "typedAgain = [TypeCameraId ''1'', ClickAddCamera, TypeCameraId '' 1 '']"



section \<open>Lemmas about the operations\<close>

subsection \<open>The error listener\<close>

lemma calls_errorHandler: "calls (errorHandler data hls) = calls hls @ reaction data"
  by (simp add: errorHandler_def reaction_def startLoad_def recoverMediaError_def destroy_def
      split: ErrorTypes.split)

lemma calls_fold_errorHandler:
  "calls (fold errorHandler ds hls) = calls hls @ concat (map reaction ds)"
  by (induction ds arbitrary: hls) (simp_all add: calls_errorHandler)


lemma reaction_fatal_media:
  "fatal d \<and> errType d = MEDIA_ERROR \<longrightarrow> reaction d = [RecoverMediaError]"
  by (simp add: reaction_def)

lemma reaction_media:
  "(\<forall>d\<in>set ds. fatal d \<and> errType d = MEDIA_ERROR) \<longrightarrow>
     concat (map reaction ds) = replicate (length ds) RecoverMediaError"
  by (induction ds) (simp_all add: reaction_fatal_media)


subsection \<open>Selecting and changing\<close>








subsection \<open>What each operation leaves alone\<close>

lemma updateButtonStates_frame [simp]:
  "cameras (updateButtonStatesIdent cid b s) = cameras s"
  "players (updateButtonStatesIdent cid b s) = players s"
  "requests (updateButtonStatesIdent cid b s) = requests s"
  "alerts (updateButtonStatesIdent cid b s) = alerts s"
  "notifications (updateButtonStatesIdent cid b s) = notifications s"
  by (simp_all add: updateButtonStatesIdent_def)

lemma initVideoStream_frame [simp]:
  "cameras (initVideoStreamIdent env cid s) = cameras s"
  "requests (initVideoStreamIdent env cid s) = requests s"
  "alerts (initVideoStreamIdent env cid s) = alerts s"
  "notifications (initVideoStreamIdent env cid s) = notifications s"
  by (simp_all add: initVideoStreamIdent_def Let_def split: option.split)

lemma destroyVideoStream_frame [simp]:
  "cameras (destroyVideoStreamIdent cid s) = cameras s"
  "requests (destroyVideoStreamIdent cid s) = requests s"
  "alerts (destroyVideoStreamIdent cid s) = alerts s"
  "notifications (destroyVideoStreamIdent cid s) = notifications s"
  by (simp_all add: destroyVideoStreamIdent_def Let_def split: option.split list.split)

lemma controlFailed_frame [simp]:
  "cameras (controlFailedIdent cid a m s) = cameras s"
  "players (controlFailedIdent cid a m s) = players s"
  "requests (controlFailedIdent cid a m s) = requests s"
  "notifications (controlFailedIdent cid a m s) = notifications s"
  "alerts (controlFailedIdent cid a m s) = alerts s @ [alertText cid a m]"
  by (simp_all add: controlFailedIdent_def)

lemma settleControl_frame [simp]:
  "cameras (settleControlIdent env cid a r s) = cameras s"
  "requests (settleControlIdent env cid a r s) = requests s"
  "notifications (settleControlIdent env cid a r s) = notifications s"
  by (simp_all add: settleControlIdent_def split: option.split)

lemma hlsError_frame [simp]:
  "cameras (hlsError i d s) = cameras s"
  "grid (hlsError i d s) = grid s"
  "requests (hlsError i d s) = requests s"
  "alerts (hlsError i d s) = alerts s"
  "notifications (hlsError i d s) = notifications s"
  by (simp_all add: hlsError_def)

lemma updateIndicator_frame [simp]:
  "cameras (updateIndicatorIdent st s k) = cameras s"
  "players (updateIndicatorIdent st s k) = players s"
  "requests (updateIndicatorIdent st s k) = requests s"
  "alerts (updateIndicatorIdent st s k) = alerts s"
  "notifications (updateIndicatorIdent st s k) = notifications s"
  by (simp_all add: updateIndicatorIdent_def)

lemma foldl_updateIndicator_frame [simp]:
  "cameras (foldl (updateIndicatorIdent st) s ks) = cameras s"
  "players (foldl (updateIndicatorIdent st) s ks) = players s"
  "requests (foldl (updateIndicatorIdent st) s ks) = requests s"
  "alerts (foldl (updateIndicatorIdent st) s ks) = alerts s"
  "notifications (foldl (updateIndicatorIdent st) s ks) = notifications s"
  by (induction ks arbitrary: s) simp_all

lemma updateStatusDisplay_frame [simp]:
  "cameras (updateStatusDisplayIdent st s) = cameras s"
  "players (updateStatusDisplayIdent st s) = players s"
  "requests (updateStatusDisplayIdent st s) = requests s"
  "alerts (updateStatusDisplayIdent st s) = alerts s"
  "notifications (updateStatusDisplayIdent st s) = notifications s"
  by (simp_all add: updateStatusDisplayIdent_def)

subsection \<open>The camera list\<close>

lemma createCameraCard_present: "cid \<in> set (cameras s) \<Longrightarrow> createCameraCard cid s = s"
  by (simp add: createCameraCard_def)

lemma foldl_createCameraCard_present:
  "set ks \<subseteq> set (cameras s) \<Longrightarrow> foldl (\<lambda>st camId. createCameraCard camId st) s ks = s"
  by (induction ks) (simp_all add: createCameraCard_present)

lemma renderCameraGrid_eq: "renderCameraGrid s = s\<lparr>grid := []\<rparr>"
  by (simp add: renderCameraGrid_def foldl_createCameraCard_present)

lemma distinct_objectKeys: "distinct (objectKeys st)"
  by (simp add: objectKeys_def)

lemma cameras_createCameraCard:
  "cameras (createCameraCard cid s) = (if cid \<in> set (cameras s) then cameras s else cameras s @ [cid])"
  by (simp add: createCameraCard_def renderCameraCard_def)

subsection \<open>Invariants of the grid\<close>








subsection \<open>The indicator after a status update\<close>










subsection \<open>Cards under the operations on one camera\<close>











subsection \<open>Id selectors\<close>










subsection \<open>What the operations leave alone, whatever the selector does\<close>

lemma withSelector_preserves:
  assumes "\<And>t. X (found t) = X t" and "\<And>t. X (also t) = X t"
    and "\<And>t g. X (t\<lparr>grid := g\<rparr>) = X t"
  shows "X (stateOf (withSelector env cid suffix found also s)) = X s"
  using assms by (simp add: withSelector_def split: Foreign.split)

lemma updateButtonStates_preserves:
  assumes "\<And>t g. X (t\<lparr>grid := g\<rparr>) = X t"
  shows "X (stateOf (updateButtonStates env cid b s)) = X s"
  unfolding updateButtonStates_def
  by (rule withSelector_preserves) (simp_all add: assms updateButtonStatesIdent_def)

lemma updateIndicator_preserves:
  assumes "\<And>t g. X (t\<lparr>grid := g\<rparr>) = X t"
  shows "X (stateOf (updateIndicator env st k s)) = X s"
  unfolding updateIndicator_def
  by (rule withSelector_preserves) (simp_all add: assms updateIndicatorIdent_def)

lemma updateIndicators_preserves:
  assumes "\<And>t g. X (t\<lparr>grid := g\<rparr>) = X t"
  shows "X (stateOf (updateIndicators env st ks s)) = X s"
proof (induction ks arbitrary: s)
  case Nil
  show ?case by simp
next
  case (Cons k ks)
  have u: "X (stateOf (updateIndicator env st k s)) = X s"
    using assms by (rule updateIndicator_preserves)
  show ?case
  proof (cases "updateIndicator env st k s")
    case (Returned t)
    with u Cons[of t] show ?thesis by simp
  next
    case (Thrown m t)
    with u show ?thesis by simp
  qed
qed

lemma updateStatusDisplay_preserves:
  assumes "\<And>t g. X (t\<lparr>grid := g\<rparr>) = X t" and "\<And>t n. X (t\<lparr>activeCamCount := n\<rparr>) = X t"
  shows "X (stateOf (updateStatusDisplay env st s)) = X s"
  unfolding updateStatusDisplay_def
  using updateIndicators_preserves[where X=X, OF assms(1)] assms(2) by simp

lemma pollTick_unfold:
  "pollTick env r s =
      (case r of
         ActiveStreams st \<Rightarrow>
           (case updateStatusDisplay env st (s\<lparr>requests := requests s @ [statusRequest]\<rparr>) of
              Returned t \<Rightarrow> t
            | Thrown m t \<Rightarrow> showNotification ''Status update failed'' ''error'' t)
       | _ \<Rightarrow> showNotification ''Status update failed'' ''error''
              (s\<lparr>requests := requests s @ [statusRequest]\<rparr>))"
  by (simp add: pollTick_def Let_def)

lemma pollTick_preserves:
  assumes "\<And>t g. X (t\<lparr>grid := g\<rparr>) = X t" and "\<And>t n. X (t\<lparr>activeCamCount := n\<rparr>) = X t"
    and "\<And>t n. X (t\<lparr>notifications := n\<rparr>) = X t"
  shows "X (pollTick env r s) = X (s\<lparr>requests := requests s @ [statusRequest]\<rparr>)"
proof (cases r)
  case (ActiveStreams st)
  let ?s1 = "s\<lparr>requests := requests s @ [statusRequest]\<rparr>"
  have u: "X (stateOf (updateStatusDisplay env st ?s1)) = X ?s1"
    using assms(1,2) by (rule updateStatusDisplay_preserves)
  show ?thesis
    using u assms(3) unfolding ActiveStreams
    by (cases "updateStatusDisplay env st ?s1") (simp_all add: pollTick_unfold showNotification_def)
qed (simp_all add: pollTick_unfold showNotification_def assms(3))

lemma pollTick_frame [simp]:
  "cameras (pollTick env r s) = cameras s"
  "players (pollTick env r s) = players s"
  "requests (pollTick env r s) = requests s @ [statusRequest]"
  "alerts (pollTick env r s) = alerts s"
  "pending (pollTick env r s) = pending s"
  "newCameraId (pollTick env r s) = newCameraId s"
  using pollTick_preserves[where X=cameras and env=env and r=r and s=s]
    pollTick_preserves[where X=players and env=env and r=r and s=s]
    pollTick_preserves[where X=requests and env=env and r=r and s=s]
    pollTick_preserves[where X=alerts and env=env and r=r and s=s]
    pollTick_preserves[where X=pending and env=env and r=r and s=s]
    pollTick_preserves[where X=newCameraId and env=env and r=r and s=s]
  by simp_all

lemma controlFailed_preserves:
  assumes "\<And>t g. X (t\<lparr>grid := g\<rparr>) = X t" and "\<And>t a. X (t\<lparr>alerts := a\<rparr>) = X t"
  shows "X (controlFailed env cid a m s) = X s"
  unfolding controlFailed_def
  using updateButtonStates_preserves[where X=X, OF assms(1)] assms(2) by simp

lemma alerts_controlFailed:
  "alerts (controlFailed env cid a m s) = alerts s @ [alertText cid a m]"
  unfolding controlFailed_def
  using updateButtonStates_preserves[where X=alerts] by simp

subsection \<open>What holds along the answer to a control request\<close>

lemma controlFailed_relation:
  assumes refl: "\<And>t. R t t" and trans: "\<And>t u v. R t u \<Longrightarrow> R u v \<Longrightarrow> R t v"
    and btn: "\<And>t b. R t (stateOf (updateButtonStates env cid b t))"
    and alr: "\<And>t x. R t (t\<lparr>alerts := x\<rparr>)"
  shows "R s (controlFailed env cid a m s)"
  unfolding controlFailed_def
  using trans[OF alr btn] .

lemma settleControl_relation:
  assumes refl: "\<And>t. R t t" and trans: "\<And>t u v. R t u \<Longrightarrow> R u v \<Longrightarrow> R t v"
    and btn: "\<And>t b. R t (stateOf (updateButtonStates env cid b t))"
    and ini: "\<And>t. R t (stateOf (initVideoStream env cid t))"
    and dst: "\<And>t. R t (stateOf (destroyVideoStream env cid t))"
    and alr: "\<And>t x. R t (t\<lparr>alerts := x\<rparr>)"
  shows "R s (settleControl env cid a r s)"
proof -
  have f: "R t (controlFailed env cid a m t)" for t m
    using refl trans btn alr by (rule controlFailed_relation)
  show ?thesis
  proof (cases "thrownMessage r")
    case (Some m)
    then show ?thesis by (simp add: settleControl_def f)
  next
    case None
    let ?o1 = "updateButtonStates env cid (a = ''start'') s"
    have r1: "R s (stateOf ?o1)" by (rule btn)
    show ?thesis
    proof (cases ?o1)
      case (Thrown m t)
      with r1 have "R s t" by simp
      from trans[OF this f] None Thrown show ?thesis
        by (simp add: settleControl_def)
    next
      case (Returned t)
      with r1 have st: "R s t" by simp
      let ?o2 = "if a = ''start'' then initVideoStream env cid t else destroyVideoStream env cid t"
      have r2: "R t (stateOf ?o2)" using ini dst by simp
      show ?thesis
      proof (cases ?o2)
        case (Thrown m u)
        with r2 have "R t u" by simp
        from trans[OF st trans[OF this f]] None Returned Thrown show ?thesis
          by (simp add: settleControl_def)
      next
        case u: (Returned u)
        with r2 have "R t u" by simp
        from trans[OF st this] None Returned u show ?thesis
          by (simp add: settleControl_def)
      qed
    qed
  qed
qed

lemma initVideoStream_preserves:
  assumes "\<And>t g. X (t\<lparr>grid := g\<rparr>) = X t" and "\<And>t p. X (t\<lparr>players := p\<rparr>) = X t"
  shows "X (stateOf (initVideoStream env cid s)) = X s"
  unfolding initVideoStream_def
  by (rule withSelector_preserves)
     (simp_all add: assms initVideoStreamIdent_def Let_def split: option.split)

lemma destroyVideoStream_preserves:
  assumes "\<And>t g. X (t\<lparr>grid := g\<rparr>) = X t" and "\<And>t p. X (t\<lparr>players := p\<rparr>) = X t"
  shows "X (stateOf (destroyVideoStream env cid s)) = X s"
  unfolding destroyVideoStream_def
  by (rule withSelector_preserves)
     (simp_all add: assms destroyVideoStreamIdent_def Let_def split: option.split list.split)

lemma settleControl_preserves:
  assumes g: "\<And>t g. X (t\<lparr>grid := g\<rparr>) = X t" and p: "\<And>t p. X (t\<lparr>players := p\<rparr>) = X t"
    and a: "\<And>t x. X (t\<lparr>alerts := x\<rparr>) = X t"
  shows "X (settleControl env cid act r s) = X s"
proof -
  have "(\<lambda>t u. X u = X t) s (settleControl env cid act r s)"
    by (rule settleControl_relation)
       (simp_all add: updateButtonStates_preserves[where X=X, OF g]
          initVideoStream_preserves[where X=X, OF g p]
          destroyVideoStream_preserves[where X=X, OF g p] a)
  then show ?thesis by simp
qed

lemma settleControl_frame_all [simp]:
  "cameras (settleControl env cid a r s) = cameras s"
  "requests (settleControl env cid a r s) = requests s"
  "pending (settleControl env cid a r s) = pending s"
  "notifications (settleControl env cid a r s) = notifications s"
  "newCameraId (settleControl env cid a r s) = newCameraId s"
  using settleControl_preserves[where X=cameras and env=env and cid=cid and act=a and r=r and s=s]
    settleControl_preserves[where X=requests and env=env and cid=cid and act=a and r=r and s=s]
    settleControl_preserves[where X=pending and env=env and cid=cid and act=a and r=r and s=s]
    settleControl_preserves[where X=notifications and env=env and cid=cid and act=a and r=r and s=s]
    settleControl_preserves[where X=newCameraId and env=env and cid=cid and act=a and r=r and s=s]
  by simp_all

subsection \<open>Players along a run\<close>







lemma run_snoc: "run env (es @ [e]) = step env (run env es) e"
  by (simp add: run_def)

lemma run_Nil: "run env [] = initState env"
  by (simp add: run_def)


subsection \<open>The camera list along a run\<close>

lemma step_distinct_cameras:
  "distinct (cameras s) \<Longrightarrow> distinct (cameras (step env s e))"
  by (cases e)
     (simp_all add: addCameraClick_def Let_def cameras_createCameraCard initialLoadCameras_def
        renderCameraGrid_eq distinct_objectKeys loadRecordings_def showNotification_def
        sendControl_def split: StatusResult.split)

lemma distinct_cameras_run: "distinct (cameras (run env es))"
  by (induction es rule: rev_induct)
     (simp_all add: run_snoc run_Nil step_distinct_cameras, simp add: initState_def)




subsection \<open>Invariants of the grid along runs with id selectors\<close>






subsection \<open>One camera with an id selector\<close>





lemma thrownMessage_failed:
  "requestFailed r \<longrightarrow> thrownMessage r = Some (failureText r)"
  by (auto simp add: requestFailed_def failureText_def)

lemma settleControl_failed:
  "requestFailed r \<longrightarrow> settleControl env cid a r s = controlFailed env cid a (failureText r) s"
  using thrownMessage_failed[of r] by (auto simp add: settleControl_def)









section \<open>Properties of the controller\<close>

subsection \<open>Media errors\<close>

text \<open>
  C1, as the code has it. Every fatal media error makes the error listener call
  \<^verbatim>\<open>recoverMediaError\<close> once more, however many came before: after any sequence of
  fatal media errors the player has been asked to recover once for each of them, and it
  is destroyed exactly if it was destroyed before. The listener keeps no count, so no
  number of media errors ends the session.
\<close>

theorem media_errors_always_recover:
  assumes "\<forall>d\<in>set ds. fatal d \<and> errType d = MEDIA_ERROR"
  shows "calls (fold errorHandler ds hls) = calls hls @ replicate (length ds) RecoverMediaError \<and>
     destroyed (fold errorHandler ds hls) = destroyed hls"
proof -
  have r: "concat (map reaction ds) = replicate (length ds) RecoverMediaError"
    using assms reaction_media by blast
  show ?thesis
    by (simp add: calls_fold_errorHandler r destroyed_def)
qed

text \<open>Three fatal media errors on the player of camera 1.\<close>

theorem media_errors_always_recover_witness:
  "fatal fatalMediaError \<and> errType fatalMediaError = MEDIA_ERROR \<and>
   calls (fold errorHandler [fatalMediaError, fatalMediaError, fatalMediaError]
            (createPlayer ''1'')) =
     calls (createPlayer ''1'') @ [RecoverMediaError, RecoverMediaError, RecoverMediaError] \<and>
   destroyed (fold errorHandler [fatalMediaError, fatalMediaError, fatalMediaError]
                (createPlayer ''1'')) =
     destroyed (createPlayer ''1'')"
proof -
  have h: "\<forall>d\<in>set [fatalMediaError, fatalMediaError, fatalMediaError].
             fatal d \<and> errType d = MEDIA_ERROR"
    by (simp add: fatalMediaError_def)
  from media_errors_always_recover[OF h, where hls="createPlayer ''1''"]
  show ?thesis
    by (simp add: fatalMediaError_def)
qed

text \<open>
  The operator adds camera 1 and starts it; its player then reports two fatal media
  errors. The second one is answered like the first, and the player is not destroyed.
\<close>

theorem second_media_error_recovers_again:
  "players (run envHls (addAndStart ''1'' @
       [HlsErrorEvent 0 fatalMediaError, HlsErrorEvent 0 fatalMediaError])) =
     [\<lparr>calls = [LoadSource ''/static/hls/camera_1/playlist.m3u8'', AttachMedia,
                RecoverMediaError, RecoverMediaError]\<rparr>] \<and>
   \<not> destroyed \<lparr>calls = [LoadSource ''/static/hls/camera_1/playlist.m3u8'', AttachMedia,
                          RecoverMediaError, RecoverMediaError]\<rparr>"
  by code_simp

subsection \<open>Attaching a player\<close>




subsection \<open>Events the code does not act on\<close>




subsection \<open>Failed control requests\<close>




subsection \<open>Status polls\<close>







text \<open>
  C7. The poll timer is set to 3000 milliseconds. Each tick sends exactly one request,
  the status request, and ends in one of three ways: a status object, a rejected fetch,
  or an answer without \<^verbatim>\<open>active_streams\<close>. A tick of the last two kinds shows the
  notification and changes nothing else: grid, players, camera list, alerts and the
  camera count are as before.
\<close>

theorem poll_tick_contract:
  "pollIntervalMs = 3 * 1000 \<and>
   requests (pollTick env r s) = requests s @ [statusRequest] \<and>
   (r = FetchFailed \<or> r = NoActiveStreams \<longrightarrow>
      grid (pollTick env r s) = grid s \<and> players (pollTick env r s) = players s \<and>
      cameras (pollTick env r s) = cameras s \<and> alerts (pollTick env r s) = alerts s \<and>
      activeCamCount (pollTick env r s) = activeCamCount s \<and>
      notifications (pollTick env r s) =
        notifications s @ [(''Status update failed'', ''error'')])"
proof -
  have i: "pollIntervalMs = 3 * 1000"
    by (simp add: pollIntervalMs_def)
  have q: "requests (pollTick env r s) = requests s @ [statusRequest]"
    by simp
  have f: "pollTick env r s =
      s\<lparr>requests := requests s @ [statusRequest],
        notifications := notifications s @ [(''Status update failed'', ''error'')]\<rparr>"
    if "r = FetchFailed \<or> r = NoActiveStreams"
    using that by (auto simp add: pollTick_def Let_def showNotification_def)
  show ?thesis
    using i q by (auto simp add: f)
qed

text \<open>Camera 1 plays and a poll is rejected.\<close>

theorem poll_tick_contract_witness:
  "pollIntervalMs = 3 * 1000 \<and>
   requests (pollTick envHls FetchFailed (run envHls (addAndStart ''1''))) =
     requests (run envHls (addAndStart ''1'')) @ [statusRequest] \<and>
   grid (pollTick envHls FetchFailed (run envHls (addAndStart ''1''))) =
     grid (run envHls (addAndStart ''1'')) \<and>
   players (pollTick envHls FetchFailed (run envHls (addAndStart ''1''))) =
     players (run envHls (addAndStart ''1'')) \<and>
   notifications (pollTick envHls FetchFailed (run envHls (addAndStart ''1''))) =
     notifications (run envHls (addAndStart ''1'')) @ [(''Status update failed'', ''error'')]"
  using poll_tick_contract[of envHls FetchFailed "run envHls (addAndStart ''1'')"]
  by simp

subsection \<open>Control requests\<close>

text \<open>
  C8, as the code has it. Every control action sends one POST with the header
  \<^verbatim>\<open>Content-Type: application/json\<close> and the body \<^verbatim>\<open>{ cameras: [cameraId] }\<close>, to
  \<^verbatim>\<open>/api/start-streams\<close> for the action \<^verbatim>\<open>start\<close> and to \<^verbatim>\<open>/api/stop-streams\<close>
  otherwise. The body of the answer is parsed before the status is looked at. An answer
  outside 2xx is a failure, whatever its body, and so are a rejected fetch and an answer
  whose body is not JSON; a failure shows the alert and makes or destroys no player. The
  message of the alert is: the \<^verbatim>\<open>message\<close> field of the answer when the status is
  outside 2xx and the body is a JSON value with a non-empty \<^verbatim>\<open>message\<close>; the fixed text
  \<^verbatim>\<open>Failed to control camera\<close> when the field is absent or empty; the parser's message
  when the body is not JSON; the message of the \<^verbatim>\<open>TypeError\<close> when the body is
  \<^verbatim>\<open>null\<close>; and the message of the rejection when the fetch is rejected.
\<close>

theorem control_request_contract:
  "requests (handleControlAction env cameraId action r s) =
     requests s @
       [\<lparr>httpMethod = ''POST'',
         url = (if action = ''start'' then ''/api/start-streams'' else ''/api/stop-streams''),
         headers = [(''Content-Type'', ''application/json'')],
         body = Some (JObject [(''cameras'', JArray [JString cameraId])])\<rparr>] \<and>
   requestFailed (Responded False data) \<and>
   requestFailed (Responded ok (NotJson message)) \<and>
   requestFailed (Rejected message) \<and>
   (requestFailed r \<longrightarrow>
      alerts (handleControlAction env cameraId action r s) =
        alerts s @
          [''Failed to '' @ action @ '' camera '' @ cameraId @ '': '' @ failureText r] \<and>
      players (handleControlAction env cameraId action r s) = players s) \<and>
   (message \<noteq> [] \<longrightarrow> failureText (Responded False (JsonValue (Some message))) = message) \<and>
   failureText (Responded False (JsonValue (Some []))) = ''Failed to control camera'' \<and>
   failureText (Responded False (JsonValue None)) = ''Failed to control camera'' \<and>
   failureText (Responded False (JsonNull message)) = message \<and>
   failureText (Responded ok (NotJson message)) = message \<and>
   failureText (Rejected message) = message"
proof -
  have q: "requests (handleControlAction env cameraId action r s) =
             requests s @ [controlRequest cameraId action]"
    by (simp add: handleControlAction_def sendControl_def)
  have f: "alerts (handleControlAction env cameraId action r s) =
             alerts s @ [alertText cameraId action (failureText r)] \<and>
           players (handleControlAction env cameraId action r s) = players s"
    if "requestFailed r"
    using that settleControl_failed[of r env cameraId action "sendControl cameraId action s"]
      controlFailed_preserves[where X=players and env=env and cid=cameraId and a=action
        and m="failureText r" and s="sendControl cameraId action s"]
    by (simp add: handleControlAction_def alerts_controlFailed sendControl_def)
  have k: "requestFailed (Responded False data)"
    by (cases data) (simp_all add: requestFailed_def thrownMessage_def)
  show ?thesis
    unfolding q
    using f k
    by (simp add: controlRequest_def controlEndpoint_def alertText_def failureMessage_def
        failureText_def thrownMessage_def requestFailed_def)
qed

text \<open>A stop of camera 1 answered with 500 and the message busy.\<close>

theorem control_request_contract_witness:
  "''busy'' \<noteq> [] \<and> requestFailed busy500 \<and>
   requests (handleControlAction envHls ''1'' ''stop'' busy500 (run envHls (addAndStart ''1''))) =
     requests (run envHls (addAndStart ''1'')) @
       [\<lparr>httpMethod = ''POST'', url = ''/api/stop-streams'',
         headers = [(''Content-Type'', ''application/json'')],
         body = Some (JObject [(''cameras'', JArray [JString ''1''])])\<rparr>] \<and>
   alerts (handleControlAction envHls ''1'' ''stop'' busy500 (run envHls (addAndStart ''1''))) =
     alerts (run envHls (addAndStart ''1'')) @ [''Failed to stop camera 1: busy'']"
proof -
  have h: "requestFailed busy500"
    by code_simp
  have t: "failureText busy500 = ''busy''"
    by code_simp
  from control_request_contract[where env=envHls and cameraId="''1''" and action="''stop''"
      and r=busy500 and s="run envHls (addAndStart ''1'')" and message="''busy''"] h t
  show ?thesis
    by simp
qed

text \<open>
  A start of camera 1 answered with 500 and a JSON body without \<^verbatim>\<open>message\<close>: the text
  of the alert does not come from the answer.
\<close>

theorem failure_message_default:
  "alerts (run envHls (addCamera ''1'' @
       [ClickControl ''1'' ''start'',
        ControlAnswered ''1'' ''start'' (Responded False (JsonValue None))])) =
     [''Failed to start camera 1: Failed to control camera'']"
  by code_simp

subsection \<open>The manifest URL\<close>



subsection \<open>The camera list\<close>

text \<open>
  C10. The camera list never holds an id twice. Whatever the operator types and clicks,
  whatever the first status load and the polls bring, and whatever else happens on the
  page, the entries of \<^verbatim>\<open>cameras\<close> are pairwise distinct. A click on Add with an input
  that is empty after trimming, or that is already in the list, changes nothing; and
  \<^verbatim>\<open>createCameraCard\<close> for an id of the list changes nothing.
\<close>

theorem cameras_never_duplicated:
  "distinct (cameras (run env es)) \<and>
   (trim (newCameraId s) = [] \<or> trim (newCameraId s) \<in> set (cameras s) \<longrightarrow>
      addCameraClick s = s) \<and>
   (cameraId \<in> set (cameras s) \<longrightarrow> createCameraCard cameraId s = s)"
  by (auto simp add: distinct_cameras_run addCameraClick_def createCameraCard_present)

text \<open>Camera 1 is in the list and the operator types its id again, with spaces.\<close>

theorem cameras_never_duplicated_witness:
  "trim (newCameraId (run envHls typedAgain)) \<in> set (cameras (run envHls typedAgain)) \<and>
   ''1'' \<in> set (cameras (run envHls typedAgain)) \<and>
   distinct (cameras (run envHls (typedAgain @ [ClickAddCamera]))) \<and>
   addCameraClick (run envHls typedAgain) = run envHls typedAgain \<and>
   createCameraCard ''1'' (run envHls typedAgain) = run envHls typedAgain"
proof -
  have h1: "trim (newCameraId (run envHls typedAgain)) \<in> set (cameras (run envHls typedAgain))"
    by code_simp
  have h2: "''1'' \<in> set (cameras (run envHls typedAgain))"
    by code_simp
  from cameras_never_duplicated[where env=envHls and es="typedAgain @ [ClickAddCamera]"
      and s="run envHls typedAgain" and cameraId="''1''"] h1 h2
  show ?thesis
    by blast
qed

end
